theory Spec2Isabelle
  imports Main
begin

section \<open>Go values used by both source files\<close>

text \<open>
  A Go \<^verbatim>\<open>error\<close> is identified with the message its \<^verbatim>\<open>Error()\<close> method returns
  (\<^verbatim>\<open>errors.New\<close> and \<^verbatim>\<open>fmt.Errorf\<close> build exactly such values); the nil error is
  \<open>None\<close> of \<open>error option\<close>. A Go function returning \<^verbatim>\<open>(T, error)\<close> returns a pair.
\<close>

datatype error = errorString string

fun Error :: "error \<Rightarrow> string" where
  "Error (errorString s) = s"

text \<open>
  A function that can hit a nil interface value either returns or panics.
\<close>

datatype 'a outcome = Return 'a | Panic string

subsection \<open>The two functions of package \<^verbatim>\<open>strings\<close> that MakeEngine calls\<close>

text \<open>
  \<^verbatim>\<open>strings.Contains(s, substr)\<close> is the byte-level substring test; the empty string is
  contained in every string.
\<close>

fun HasPrefix :: "string \<Rightarrow> string \<Rightarrow> bool" where
  "HasPrefix s [] = True"
| "HasPrefix [] (p # ps) = False"
| "HasPrefix (c # cs) (p # ps) = (c = p \<and> HasPrefix cs ps)"

fun Contains :: "string \<Rightarrow> string \<Rightarrow> bool" where
  "Contains [] substr = HasPrefix [] substr"
| "Contains (c # cs) substr = (HasPrefix (c # cs) substr \<or> Contains cs substr)"

text \<open>
  What "\<open>s\<close> contains \<open>t\<close>" means, to compare \<open>Contains\<close> with: \<open>t\<close> occurs in \<open>s\<close> as a
  block of consecutive bytes.
\<close>

definition occurs_in :: "string \<Rightarrow> string \<Rightarrow> bool" where
  "occurs_in t s \<longleftrightarrow> (\<exists>u v. s = u @ t @ v)"

text \<open>
  \<^verbatim>\<open>strings.ToLower\<close> has two paths. A string made of ASCII bytes only (each below
  \<^verbatim>\<open>utf8.RuneSelf\<close> = 128) has \<^verbatim>\<open>'a' - 'A'\<close> = 32 added to each byte in \<^verbatim>\<open>'A'..'Z'\<close>.
  Any other string goes through \<^verbatim>\<open>Map(unicode.ToLower, s)\<close>, which needs the Unicode
  tables; that path is the parameter \<open>u\<close>.
\<close>

definition lowerByte :: "char \<Rightarrow> char" where
  "lowerByte c =
     (let n = (of_char c :: nat) in if 65 \<le> n \<and> n \<le> 90 then char_of (n + 32) else c)"

definition ToLower :: "(string \<Rightarrow> string) \<Rightarrow> string \<Rightarrow> string" where
  "ToLower u s =
     (if list_all (\<lambda>c. (of_char c :: nat) < 128) s then map lowerByte s else u s)"

section \<open>The container engine (\<^verbatim>\<open>MakeEngine\<close>)\<close>

definition autodetectEngine :: string where "autodetectEngine = ''''"
definition dockerEngine :: string where "dockerEngine = ''docker''"
definition podmanEngine :: string where "podmanEngine = ''podman''"
definition kubernetesEngine :: string where "kubernetesEngine = ''kubernetes''"

record Engine =
  Name :: string
  Binary :: string

text \<open>The zero value \<^verbatim>\<open>Engine{}\<close> that accompanies every error.\<close>

definition Engine_zero :: Engine where
  "Engine_zero = \<lparr>Engine.Name = '''', Binary = ''''\<rparr>"

definition IsDocker :: "Engine \<Rightarrow> bool" where
  "IsDocker e = (Engine.Name e = dockerEngine)"

definition IsPodman :: "Engine \<Rightarrow> bool" where
  "IsPodman e = (Engine.Name e = podmanEngine)"

definition IsKubernetes :: "Engine \<Rightarrow> bool" where
  "IsKubernetes e = (Engine.Name e = kubernetesEngine)"

text \<open>
  What MakeEngine reads from the host it runs on:
  \<^item> \<open>LookPath\<close>: \<^verbatim>\<open>execabs.LookPath(file)\<close>, the path found on the search path, or an error;
  \<^item> \<open>CommandOutput\<close>: \<^verbatim>\<open>execabs.Command(name, args...).Output()\<close>, the standard output of
    the finished process and its error;
  \<^item> \<open>checkKubernetesClient\<close>: the cluster client check, declared outside the two source
    files;
  \<^item> \<open>unicodeToLower\<close>: the non-ASCII path of \<^verbatim>\<open>strings.ToLower\<close>.
\<close>

record host =
  LookPath :: "string \<Rightarrow> string \<times> error option"
  CommandOutput :: "string \<Rightarrow> string list \<Rightarrow> string \<times> error option"
  checkKubernetesClient :: "error option"
  unicodeToLower :: "string \<Rightarrow> string"

definition MakeEngine :: "host \<Rightarrow> string \<Rightarrow> Engine \<times> error option" where
  "MakeEngine h e =
     (if e = dockerEngine then
        (let (binaryPath, err) = LookPath h dockerEngine in
         if err \<noteq> None then (Engine_zero, Some (errorString ''docker binary not found in PATH''))
         else (\<lparr>Engine.Name = dockerEngine, Binary = binaryPath\<rparr>, None))
      else if e = podmanEngine then
        (let (binaryPath, err) = LookPath h podmanEngine in
         if err \<noteq> None then (Engine_zero, Some (errorString ''podman binary not found in PATH''))
         else (\<lparr>Engine.Name = podmanEngine, Binary = binaryPath\<rparr>, None))
      else if e = '''' then
        (let binaryPath = ''/usr/bin/docker'';
             (out, err) = CommandOutput h binaryPath [''--version''] in
         if err \<noteq> None
         then (Engine_zero, Some (errorString (''could not detect engine version: '' @ out)))
         else
           (let lout = ToLower (unicodeToLower h) out in
            if Contains lout dockerEngine
            then (\<lparr>Engine.Name = dockerEngine, Binary = binaryPath\<rparr>, None)
            else if Contains lout podmanEngine
            then (\<lparr>Engine.Name = podmanEngine, Binary = binaryPath\<rparr>, None)
            else (Engine_zero, Some (errorString (''could not detect engine version: '' @ out)))))
      else if e = kubernetesEngine then
        (let err = checkKubernetesClient h in
         if err \<noteq> None then (Engine_zero, err)
         else (\<lparr>Engine.Name = kubernetesEngine, Binary = ''''\<rparr>, None))
      else (Engine_zero, Some (errorString ''unsupported container engine'')))"

text \<open>
  A host used to run MakeEngine on concrete inputs: both runtimes are installed, the
  cluster is reachable, and \<^verbatim>\<open>/usr/bin/docker --version\<close> prints \<open>out\<close> with error \<open>err\<close>.
\<close>

definition probe_host :: "string \<Rightarrow> error option \<Rightarrow> host" where
  "probe_host out err =
     \<lparr>LookPath = (\<lambda>file.
          if file = ''docker'' then (''/usr/local/bin/docker'', None)
          else if file = ''podman'' then (''/usr/bin/podman'', None)
          else ('''', Some (errorString ''executable file not found in $PATH''))),
      CommandOutput = (\<lambda>name args. (out, err)),
      checkKubernetesClient = None,
      unicodeToLower = (\<lambda>s. s)\<rparr>"

text \<open>A host with an empty search path and no reachable cluster.\<close>

definition bare_host :: host where
  "bare_host =
     \<lparr>LookPath = (\<lambda>file. ('''', Some (errorString ''executable file not found in $PATH''))),
      CommandOutput = (\<lambda>name args. ('''', Some (errorString ''no such file or directory''))),
      checkKubernetesClient = Some (errorString ''cluster unreachable''),
      unicodeToLower = (\<lambda>s. s)\<rparr>"

section \<open>The FreeBSD builder (\<^verbatim>\<open>freebsd.go\<close>)\<close>

subsection \<open>Types and helpers declared outside the two source files\<close>

text \<open>
  Modelled from the spec: type \<^verbatim>\<open>Architecture\<close> and its constants. The source converts
  a constant with \<^verbatim>\<open>string(ArchArm64)\<close> and compares it with \<^verbatim>\<open>runtime.GOARCH\<close>, so an
  architecture is a string; the spec lists the values amd64 and arm64.
\<close>

type_synonym Architecture = string

definition ArchAmd64 :: Architecture where "ArchAmd64 = ''amd64''"
definition ArchArm64 :: Architecture where "ArchArm64 = ''arm64''"

text \<open>
  Modelled from the spec: the build context, "application name, release/debug mode flag,
  ... container-side path roots (work dir, temp dir, output/bin dir), volume/mount
  description, global environment overrides". The fields \<open>WorkDirContainer\<close>,
  \<open>TmpDirContainer\<close> and \<open>BinDirContainer\<close> hold what the methods of these names return;
  the volume is of an arbitrary type \<open>'v\<close>.
\<close>

record 'v Context =
  Name :: string
  Release :: bool
  Env :: "string \<rightharpoonup> string"
  Volume :: 'v
  WorkDirContainer :: string
  TmpDirContainer :: string
  BinDirContainer :: string

text \<open>
  Modelled from the spec: a container image, "target OS identifier, Architecture, image
  reference, a mapping from environment-variable name to value, an identity token".
  \<open>ID\<close> holds what the method \<^verbatim>\<open>ID()\<close> returns, and \<^verbatim>\<open>SetEnv\<close> stores one variable.
\<close>

record containerImage =
  imageArch :: Architecture
  imageOS :: string
  ID :: string
  DockerImage :: string
  env :: "string \<rightharpoonup> string"

definition SetEnv :: "containerImage \<Rightarrow> string \<Rightarrow> string \<Rightarrow> containerImage" where
  "SetEnv img k v = img\<lparr>env := (env img)(k \<mapsto> v)\<rparr>"

text \<open>The options of one in-container command; \<^verbatim>\<open>options{}\<close> has the empty \<open>WorkDir\<close>.\<close>

record options =
  WorkDir :: string

text \<open>
  Modelled from the spec: \<^verbatim>\<open>volume.JoinPathContainer\<close>, "pure string-joining for
  container-side paths; no I/O". The elements are joined with the container's
  separator \<^verbatim>\<open>/\<close>.
\<close>

fun JoinPathContainer :: "string list \<Rightarrow> string" where
  "JoinPathContainer [] = ''''"
| "JoinPathContainer [e] = e"
| "JoinPathContainer (e # es) = e @ ''/'' @ JoinPathContainer es"





subsection \<open>Constants and the command value\<close>

definition freebsdOS :: string where "freebsdOS = ''freebsd''"

definition freebsdImageAmd64 :: string where
  "freebsdImageAmd64 = ''fyneio/fyne-cross-images:freebsd-amd64''"

definition freebsdImageArm64 :: string where
  "freebsdImageArm64 = ''fyneio/fyne-cross-images:freebsd-arm64''"

definition freebsdArchSupported :: "Architecture list" where
  "freebsdArchSupported = [ArchAmd64, ArchArm64]"

record 'v freeBSD =
  Images :: "containerImage list"
  defaultContext :: "'v Context"

text \<open>
  \<^verbatim>\<open>freebsdFlags\<close>: the common flags, of an arbitrary type \<open>'f\<close>, and the list of
  requested architectures (\<^verbatim>\<open>targetArchFlag{runtime.GOARCH}\<close> is a list of strings).
\<close>

record 'f freebsdFlags =
  CommonFlags :: 'f
  TargetArch :: "string list"

subsection \<open>\<^verbatim>\<open>Build\<close>\<close>

text \<open>
  The steps Build calls act on the world outside the program (the log, the host's files,
  the container), of an arbitrary type \<open>'w\<close>; each returns its error and the new world.
  \<open>image_Run\<close> is the method \<^verbatim>\<open>image.Run(vol, opts, cmdArgs)\<close>, which reports the failure of
  the in-container command as an error.
\<close>

record ('v, 'w) steps =
  prepareIcon :: "'v Context \<Rightarrow> containerImage \<Rightarrow> 'w \<Rightarrow> error option \<times> 'w"
  fyneRelease :: "'v Context \<Rightarrow> containerImage \<Rightarrow> 'w \<Rightarrow> error option \<times> 'w"
  fynePackage :: "'v Context \<Rightarrow> containerImage \<Rightarrow> 'w \<Rightarrow> error option \<times> 'w"
  image_Run :: "containerImage \<Rightarrow> 'v \<Rightarrow> options \<Rightarrow> string list \<Rightarrow> 'w \<Rightarrow> error option \<times> 'w"

text \<open>
  To say which steps ran, the state threaded through Build is the world together with
  the list of calls made so far, in order.
\<close>

datatype call =
    log_Info string
  | call_prepareIcon containerImage
  | call_fyneRelease containerImage
  | call_fynePackage containerImage
  | call_Run containerImage options "string list"

record 'w machine =
  world :: 'w
  calls :: "call list"

definition invoke :: "call \<Rightarrow> ('w \<Rightarrow> 'a \<times> 'w) \<Rightarrow> 'w machine \<Rightarrow> 'a \<times> 'w machine" where
  "invoke c f s = (let (r, w) = f (world s) in (r, \<lparr>world = w, calls = calls s @ [c]\<rparr>))"

definition Build ::
  "('v, 'w) steps \<Rightarrow> 'v freeBSD \<Rightarrow> containerImage \<Rightarrow> 'w machine
     \<Rightarrow> (string \<times> error option) \<times> 'w machine" where
  "Build x cmd img s0 =
     (let ctx = defaultContext cmd;
          (_, s1) = invoke (log_Info ''[i] Packaging app...'') (\<lambda>w. ((), w)) s0;
          packageName = Context.Name ctx @ ''.tar.xz'';
          (err, s2) = invoke (call_prepareIcon img) (prepareIcon x ctx img) s1
      in
      case err of Some e \<Rightarrow> (('''', Some e), s2)
      | None \<Rightarrow>
     (let (err, s3) =
            (if Release ctx
             then invoke (call_fyneRelease img) (fyneRelease x ctx img) s2
             else invoke (call_fynePackage img) (fynePackage x ctx img) s2)
      in
      case err of
        Some e \<Rightarrow>
          (('''', Some (errorString (''could not package the Fyne app: '' @ Error e))), s3)
      | None \<Rightarrow>
     (let mv = [''mv'',
                JoinPathContainer [WorkDirContainer ctx, packageName],
                JoinPathContainer [TmpDirContainer ctx, ID img, packageName]];
          opts = \<lparr>WorkDir = ''''\<rparr>;
          (_, s4) = invoke (call_Run img opts mv) (image_Run x img (Volume ctx) opts mv) s3;
          tar = [''tar'', ''-xf'',
                 JoinPathContainer [TmpDirContainer ctx, ID img, packageName],
                 ''--strip-components=3'', ''usr/local/bin''];
          opts = \<lparr>WorkDir = JoinPathContainer [BinDirContainer ctx, ID img]\<rparr>;
          (_, s5) = invoke (call_Run img opts tar) (image_Run x img (Volume ctx) opts tar) s4
      in ((packageName, None), s5))))"

subsection \<open>\<^verbatim>\<open>setupContainerImages\<close>\<close>

text \<open>
  The helpers setupContainerImages calls, declared outside the two source files; \<open>'r\<close> is
  the type of the container runner.
\<close>

record ('f, 'v, 'r) helpers =
  targetArchFromFlag :: "string list \<Rightarrow> Architecture list \<Rightarrow> Architecture list \<times> error option"
  makeDefaultContext :: "'f \<Rightarrow> string list \<Rightarrow> 'v Context \<times> error option"
  newContainerEngine :: "'v Context \<Rightarrow> 'r \<times> error option"
  createContainerImage :: "'r \<Rightarrow> Architecture \<Rightarrow> string \<Rightarrow> string \<Rightarrow> containerImage"
  overrideDockerImage :: "'f \<Rightarrow> string \<Rightarrow> string"

text \<open>
  The \<^verbatim>\<open>switch arch\<close> of the loop body; \<open>GOARCH\<close> is \<^verbatim>\<open>runtime.GOARCH\<close>, the architecture of
  the host. The switch has no default case: for any other architecture the variable
  \<^verbatim>\<open>image\<close> keeps its zero value, the nil interface (\<open>None\<close>).
\<close>

definition switch_arch ::
  "('f, 'v, 'r) helpers \<Rightarrow> string \<Rightarrow> 'f freebsdFlags \<Rightarrow> 'v Context \<Rightarrow> 'r \<Rightarrow> Architecture
     \<Rightarrow> containerImage option" where
  "switch_arch x GOARCH flags ctx runner arch =
     (if arch = ArchAmd64 then
        (let img = createContainerImage x runner arch freebsdOS
                       (overrideDockerImage x (CommonFlags flags) freebsdImageAmd64);
             img = SetEnv img ''GOARCH'' ''amd64'';
             img = SetEnv img ''CC'' ''clang --sysroot=/freebsd --target=x86_64-unknown-freebsd12'';
             img = SetEnv img ''CXX'' ''clang++ --sysroot=/freebsd --target=x86_64-unknown-freebsd12'';
             img =
               (if GOARCH = ArchArm64 then
                  (case Env ctx ''CGO_LDFLAGS'' of
                     Some v \<Rightarrow> SetEnv img ''CGO_LDFLAGS'' (v @ '' -fuse-ld=lld'')
                   | None \<Rightarrow> SetEnv img ''CGO_LDFLAGS'' ''-fuse-ld=lld'')
                else img)
         in Some img)
      else if arch = ArchArm64 then
        (let img = createContainerImage x runner arch freebsdOS
                       (overrideDockerImage x (CommonFlags flags) freebsdImageArm64);
             img = SetEnv img ''GOARCH'' ''arm64'';
             img =
               (case Env ctx ''CGO_LDFLAGS'' of
                  Some v \<Rightarrow> SetEnv img ''CGO_LDFLAGS'' (v @ '' -fuse-ld=lld'')
                | None \<Rightarrow> SetEnv img ''CGO_LDFLAGS'' ''-fuse-ld=lld'');
             img = SetEnv img ''CC'' ''clang --sysroot=/freebsd --target=aarch64-unknown-freebsd12'';
             img = SetEnv img ''CXX'' ''clang++ --sysroot=/freebsd --target=aarch64-unknown-freebsd12''
         in Some img)
      else None)"

text \<open>
  The loop over the target architectures, with the images appended so far. Calling
  \<^verbatim>\<open>SetEnv\<close> on the nil interface panics.
\<close>

fun setup_loop ::
  "('f, 'v, 'r) helpers \<Rightarrow> string \<Rightarrow> 'f freebsdFlags \<Rightarrow> 'v Context \<Rightarrow> 'r \<Rightarrow> Architecture list
     \<Rightarrow> containerImage list \<Rightarrow> containerImage list outcome" where
  "setup_loop x GOARCH flags ctx runner [] images = Return images"
| "setup_loop x GOARCH flags ctx runner (arch # rest) images =
     (case switch_arch x GOARCH flags ctx runner arch of
        None \<Rightarrow> Panic ''invalid memory address or nil pointer dereference''
      | Some img \<Rightarrow>
          setup_loop x GOARCH flags ctx runner rest (images @ [SetEnv img ''GOOS'' ''freebsd'']))"

definition setupContainerImages ::
  "('f, 'v, 'r) helpers \<Rightarrow> string \<Rightarrow> 'v freeBSD \<Rightarrow> 'f freebsdFlags \<Rightarrow> string list
     \<Rightarrow> ('v freeBSD \<times> error option) outcome" where
  "setupContainerImages x GOARCH cmd flags args =
     (let (targetArch, err) = targetArchFromFlag x (TargetArch flags) freebsdArchSupported in
      case err of
        Some e \<Rightarrow>
          Return (cmd, Some (errorString
            (''could not make build context for '' @ freebsdOS @ '' OS: '' @ Error e)))
      | None \<Rightarrow>
     (let (ctx, err) = makeDefaultContext x (CommonFlags flags) args in
      case err of Some e \<Rightarrow> Return (cmd, Some e)
      | None \<Rightarrow>
     (let cmd = cmd\<lparr>defaultContext := ctx\<rparr>;
          (runner, err) = newContainerEngine x ctx in
      case err of Some e \<Rightarrow> Return (cmd, Some e)
      | None \<Rightarrow>
     (case setup_loop x GOARCH flags ctx runner targetArch (Images cmd) of
        Panic m \<Rightarrow> Panic m
      | Return images \<Rightarrow> Return (cmd\<lparr>Images := images\<rparr>, None)))))"

text \<open>
  The linker rule in the words of the spec, to compare the code with: the flag is
  added "when the host architecture differs from arm64 and the target architecture is
  arm64 (or, symmetrically, when building for amd64 from an arm64 host)".
\<close>

definition lld_rule_spec :: "string \<Rightarrow> Architecture \<Rightarrow> bool" where
  "lld_rule_spec host target \<longleftrightarrow>
     (host \<noteq> ArchArm64 \<and> target = ArchArm64) \<or> (host = ArchArm64 \<and> target = ArchAmd64)"

text \<open>
  The value of \<^verbatim>\<open>CGO_LDFLAGS\<close> in each image of the command after a run that returned
  without error, in the order of \<^verbatim>\<open>cmd.Images\<close>.
\<close>

definition CGO_LDFLAGS_after ::
  "('v freeBSD \<times> error option) outcome \<Rightarrow> string option list option" where
  "CGO_LDFLAGS_after r =
     (case r of
        Return (cmd, None) \<Rightarrow> Some (map (\<lambda>img. env img ''CGO_LDFLAGS'') (Images cmd))
      | Return (cmd, Some e) \<Rightarrow> None
      | Panic m \<Rightarrow> None)"

subsection \<open>Concrete inputs\<close>

text \<open>
  An application context and the two FreeBSD images, with the world a unit value.
\<close>

definition app_ctx :: "bool \<Rightarrow> (string \<rightharpoonup> string) \<Rightarrow> unit Context" where
  "app_ctx release vars =
     \<lparr>Context.Name = ''app'', Release = release, Env = vars, Volume = (),
      WorkDirContainer = ''/app'', TmpDirContainer = ''/app/fyne-cross/tmp'',
      BinDirContainer = ''/app/fyne-cross/bin''\<rparr>"

definition app_cmd :: "bool \<Rightarrow> unit freeBSD" where
  "app_cmd release = \<lparr>Images = [], defaultContext = app_ctx release Map.empty\<rparr>"

definition new_image :: "unit \<Rightarrow> Architecture \<Rightarrow> string \<Rightarrow> string \<Rightarrow> containerImage" where
  "new_image runner a OS img =
     \<lparr>imageArch = a, imageOS = OS, ID = OS @ ''-'' @ a, DockerImage = img, env = Map.empty\<rparr>"


definition image_amd64 :: containerImage where
  "image_amd64 = new_image () ArchAmd64 freebsdOS freebsdImageAmd64"

definition image_arm64 :: containerImage where
  "image_arm64 = new_image () ArchArm64 freebsdOS freebsdImageArm64"

text \<open>
  Steps that succeed or fail as told: \<open>icon\<close>, \<open>pkg\<close> and \<open>run\<close> are the errors returned by
  prepareIcon, by both packaging procedures and by every in-container command.
\<close>

definition fixed_steps :: "error option \<Rightarrow> error option \<Rightarrow> error option \<Rightarrow> (unit, unit) steps" where
  "fixed_steps icon pkg run =
     \<lparr>prepareIcon = (\<lambda>ctx img w. (icon, w)),
      fyneRelease = (\<lambda>ctx img w. (pkg, w)),
      fynePackage = (\<lambda>ctx img w. (pkg, w)),
      image_Run = (\<lambda>img vol opts args w. (run, w))\<rparr>"

definition start :: "unit machine" where
  "start = \<lparr>world = (), calls = []\<rparr>"

text \<open>
  Helpers that accept the requested architectures as they are, build the context
  \<open>app_ctx False vars\<close> and create images with \<open>new_image\<close>.
\<close>

definition plain_helpers :: "(string \<rightharpoonup> string) \<Rightarrow> (unit, unit, unit) helpers" where
  "plain_helpers vars =
     \<lparr>targetArchFromFlag = (\<lambda>requested supported. (requested, None)),
      makeDefaultContext = (\<lambda>flags args. (app_ctx False vars, None)),
      newContainerEngine = (\<lambda>ctx. ((), None)),
      createContainerImage = new_image,
      overrideDockerImage = (\<lambda>flags img. img)\<rparr>"

definition arch_flags :: "string list \<Rightarrow> unit freebsdFlags" where
  "arch_flags archs = \<lparr>CommonFlags = (), TargetArch = archs\<rparr>"

section \<open>Strings\<close>

lemma HasPrefix_append: "HasPrefix (p @ v) p"
  by (induction p) auto

lemma HasPrefix_iff: "HasPrefix s p \<longleftrightarrow> (\<exists>v. s = p @ v)"
  by (induction s p rule: HasPrefix.induct) auto

lemma Contains_iff: "Contains s substr \<longleftrightarrow> (\<exists>u v. s = u @ substr @ v)"
proof (induction s)
  case Nil
  show ?case by (cases substr) auto
next
  case (Cons c cs)
  show ?case
  proof
    assume "Contains (c # cs) substr"
    then consider "HasPrefix (c # cs) substr" | "Contains cs substr" by auto
    then show "\<exists>u v. c # cs = u @ substr @ v"
    proof cases
      case 1
      then obtain v where "c # cs = substr @ v" using HasPrefix_iff by blast
      then have "c # cs = [] @ substr @ v" by simp
      then show ?thesis by blast
    next
      case 2
      then obtain u v where "cs = u @ substr @ v" using Cons.IH by blast
      then have "c # cs = (c # u) @ substr @ v" by simp
      then show ?thesis by blast
    qed
  next
    assume "\<exists>u v. c # cs = u @ substr @ v"
    then obtain u v where uv: "c # cs = u @ substr @ v" by blast
    show "Contains (c # cs) substr"
    proof (cases u)
      case Nil
      with uv have "HasPrefix (c # cs) substr" using HasPrefix_iff by auto
      then show ?thesis by simp
    next
      case (Cons a u')
      with uv have "cs = u' @ substr @ v" by simp
      then have "Contains cs substr" using Cons.IH by blast
      then show ?thesis by simp
    qed
  qed
qed

lemma Contains_occurs_in: "Contains s substr \<longleftrightarrow> occurs_in substr s"
  by (simp add: Contains_iff occurs_in_def)

lemma ToLower_ascii:
  "list_all (\<lambda>c. (of_char c :: nat) < 128) s \<Longrightarrow> ToLower u s = map lowerByte s"
  by (simp add: ToLower_def)

lemma ToLower_docker_output: "ToLower u ''Docker version 24.0.5'' = ''docker version 24.0.5''"
  by code_simp

lemma ToLower_podman_output: "ToLower u ''podman version 4.3.1'' = ''podman version 4.3.1''"
  by code_simp

lemma ToLower_other_output: "ToLower u ''nerdctl version 1.7.0'' = ''nerdctl version 1.7.0''"
  by code_simp

section \<open>Properties of \<^verbatim>\<open>MakeEngine\<close>\<close>

lemmas engine_names = autodetectEngine_def dockerEngine_def podmanEngine_def kubernetesEngine_def

text \<open>
  Claim C2. Autodetection (MakeEngine called with the empty string) is a case analysis on
  the result of running the fixed path \<^verbatim>\<open>/usr/bin/docker\<close> with \<^verbatim>\<open>--version\<close>. When the run
  succeeds and its lowercased output contains "docker", the result is the docker engine
  with the fixed path as binary; otherwise, when it succeeds and the lowercased output
  contains "podman", the result is the podman engine with the same fixed path; when the
  output contains neither, or the run itself fails, the result is the zero Engine and
  the error "could not detect engine version: " followed by the output. The result is
  a function of the probe's output and error alone.
\<close>

theorem MakeEngine_autodetect:
  assumes probe: "CommandOutput h ''/usr/bin/docker'' [''--version''] = (out, err)"
    and lout: "lout = ToLower (unicodeToLower h) out"
  shows "MakeEngine h autodetectEngine =
     (if err = None \<and> occurs_in ''docker'' lout
      then (\<lparr>Engine.Name = ''docker'', Binary = ''/usr/bin/docker''\<rparr>, None)
      else if err = None \<and> occurs_in ''podman'' lout
      then (\<lparr>Engine.Name = ''podman'', Binary = ''/usr/bin/docker''\<rparr>, None)
      else (Engine_zero, Some (errorString (''could not detect engine version: '' @ out))))"
  using probe lout
  by (simp add: MakeEngine_def engine_names Contains_occurs_in Let_def)

theorem MakeEngine_autodetect_witness:
  "MakeEngine (probe_host ''Docker version 24.0.5'' None) '''' =
     (\<lparr>Engine.Name = ''docker'', Binary = ''/usr/bin/docker''\<rparr>, None) \<and>
   MakeEngine (probe_host ''podman version 4.3.1'' None) '''' =
     (\<lparr>Engine.Name = ''podman'', Binary = ''/usr/bin/docker''\<rparr>, None) \<and>
   MakeEngine (probe_host ''nerdctl version 1.7.0'' None) '''' =
     (Engine_zero, Some (errorString ''could not detect engine version: nerdctl version 1.7.0'')) \<and>
   MakeEngine (probe_host ''Docker version 24.0.5'' (Some (errorString ''exit status 1''))) '''' =
     (Engine_zero, Some (errorString ''could not detect engine version: Docker version 24.0.5''))"
proof -
  have p: "CommandOutput (probe_host out err) ''/usr/bin/docker'' [''--version''] = (out, err)"
    for out err by (simp add: probe_host_def)
  have u: "unicodeToLower (probe_host out err) = (\<lambda>s. s)" for out err
    by (simp add: probe_host_def)
  have d: "occurs_in ''docker'' ''docker version 24.0.5''"
    unfolding Contains_occurs_in [symmetric] by simp
  have pd: "\<not> occurs_in ''docker'' ''podman version 4.3.1''" 
    unfolding Contains_occurs_in [symmetric] by simp
  have pp: "occurs_in ''podman'' ''podman version 4.3.1''" 
    unfolding Contains_occurs_in [symmetric] by simp
  have nd: "\<not> occurs_in ''docker'' ''nerdctl version 1.7.0''" 
    unfolding Contains_occurs_in [symmetric] by simp
  have np: "\<not> occurs_in ''podman'' ''nerdctl version 1.7.0''" 
    unfolding Contains_occurs_in [symmetric] by simp
  show ?thesis
    using MakeEngine_autodetect [OF p refl, of "''Docker version 24.0.5''" None]
      MakeEngine_autodetect [OF p refl, of "''podman version 4.3.1''" None]
      MakeEngine_autodetect [OF p refl, of "''nerdctl version 1.7.0''" None]
      MakeEngine_autodetect [OF p refl, of "''Docker version 24.0.5''" "Some (errorString ''exit status 1'')"]
    by (simp add: u ToLower_docker_output ToLower_podman_output ToLower_other_output
        autodetectEngine_def d pd pp nd np)
qed

text \<open>
  Claim C4. For a requested engine "docker" or "podman", MakeEngine looks the requested
  name up on the search path. When the lookup succeeds the result is the Engine whose
  Name is the requested token and whose Binary is the path found; when it fails the
  result is the zero Engine and the error "<name> binary not found in PATH". No other
  engine is ever returned.
\<close>

theorem MakeEngine_explicit:
  assumes req: "e = dockerEngine \<or> e = podmanEngine"
    and look: "LookPath h e = (binaryPath, err)"
  shows "MakeEngine h e =
     (if err = None then (\<lparr>Engine.Name = e, Binary = binaryPath\<rparr>, None)
      else (Engine_zero, Some (errorString (e @ '' binary not found in PATH''))))"
  using req look by (auto simp add: MakeEngine_def engine_names)

theorem MakeEngine_explicit_witness:
  "MakeEngine (probe_host [] None) ''docker'' =
     (\<lparr>Engine.Name = ''docker'', Binary = ''/usr/local/bin/docker''\<rparr>, None) \<and>
   MakeEngine (probe_host [] None) ''podman'' =
     (\<lparr>Engine.Name = ''podman'', Binary = ''/usr/bin/podman''\<rparr>, None) \<and>
   MakeEngine bare_host ''docker'' =
     (Engine_zero, Some (errorString ''docker binary not found in PATH'')) \<and>
   MakeEngine bare_host ''podman'' =
     (Engine_zero, Some (errorString ''podman binary not found in PATH''))"
  using MakeEngine_explicit [of "''docker''" "probe_host [] None" "''/usr/local/bin/docker''" None]
    MakeEngine_explicit [of "''podman''" "probe_host [] None" "''/usr/bin/podman''" None]
    MakeEngine_explicit [of "''docker''" bare_host "''''" "Some (errorString ''executable file not found in $PATH'')"]
    MakeEngine_explicit [of "''podman''" bare_host "''''" "Some (errorString ''executable file not found in $PATH'')"]
  by (simp add: engine_names probe_host_def bare_host_def)

text \<open>
  Claim C8. Let MakeEngine return an Engine without error, on a host whose LookPath
  returns a non-empty path whenever it succeeds (as \<^verbatim>\<open>execabs.LookPath\<close> does). Then the
  Binary is the empty string if and only if the Name is "kubernetes"; the Name is one of
  "docker", "podman" and "kubernetes", so for the first two the Binary is non-empty; and
  the kubernetes Engine is returned, with the empty Binary, only for the request
  "kubernetes" and only when the cluster client check returned no error.
\<close>

theorem MakeEngine_Binary_empty_iff_kubernetes:
  assumes ok: "MakeEngine h e = (eng, None)"
    and found: "\<And>file path. LookPath h file = (path, None) \<Longrightarrow> path \<noteq> ''''"
  shows "(Binary eng = '''' \<longleftrightarrow> Engine.Name eng = kubernetesEngine) \<and>
         (Engine.Name eng = dockerEngine \<or> Engine.Name eng = podmanEngine \<or>
          Engine.Name eng = kubernetesEngine) \<and>
         (Engine.Name eng = kubernetesEngine \<longrightarrow>
            e = kubernetesEngine \<and> checkKubernetesClient h = None \<and>
            eng = \<lparr>Engine.Name = kubernetesEngine, Binary = ''''\<rparr>)"
  using ok found
  by (auto simp add: MakeEngine_def engine_names Let_def split: if_splits prod.splits)

theorem MakeEngine_Binary_empty_iff_kubernetes_witness:
  "MakeEngine (probe_host [] None) ''docker'' =
     (\<lparr>Engine.Name = ''docker'', Binary = ''/usr/local/bin/docker''\<rparr>, None) \<and>
   ''/usr/local/bin/docker'' \<noteq> '''' \<and> ''docker'' \<noteq> kubernetesEngine \<and>
   MakeEngine (probe_host [] None) ''kubernetes'' =
     (\<lparr>Engine.Name = ''kubernetes'', Binary = ''''\<rparr>, None) \<and>
   checkKubernetesClient (probe_host [] None) = None"
proof -
  let ?h = "probe_host [] None"
  have found: "LookPath ?h f = (p, None) \<Longrightarrow> p \<noteq> ''''" for f p
    by (auto simp add: probe_host_def split: if_splits)
  have d: "MakeEngine ?h ''docker'' =
      (\<lparr>Engine.Name = ''docker'', Binary = ''/usr/local/bin/docker''\<rparr>, None)"
    by (simp add: MakeEngine_def engine_names probe_host_def)
  have k: "MakeEngine ?h ''kubernetes'' = (\<lparr>Engine.Name = ''kubernetes'', Binary = ''''\<rparr>, None)"
    by (simp add: MakeEngine_def engine_names probe_host_def)
  show ?thesis
    using MakeEngine_Binary_empty_iff_kubernetes [OF d found]
      MakeEngine_Binary_empty_iff_kubernetes [OF k found]
    by (simp add: d k kubernetesEngine_def)
qed

section \<open>Properties of \<^verbatim>\<open>Build\<close>\<close>

subsection \<open>What Build does in each of its three exits\<close>

lemma Build_after_prepare_failure:
  assumes "prepareIcon x (defaultContext cmd) img (world s) = (Some e, w)"
  shows "Build x cmd img s =
     (('''', Some e),
      \<lparr>world = w, calls = calls s @ [log_Info ''[i] Packaging app...'', call_prepareIcon img]\<rparr>)"
  using assms by (simp add: Build_def invoke_def Let_def)

lemma Build_after_package_failure:
  assumes "prepareIcon x (defaultContext cmd) img (world s) = (None, w1)"
    and "(if Release (defaultContext cmd) then fyneRelease x (defaultContext cmd) img w1
          else fynePackage x (defaultContext cmd) img w1) = (Some e, w2)"
  shows "Build x cmd img s =
     (('''', Some (errorString (''could not package the Fyne app: '' @ Error e))),
      \<lparr>world = w2,
       calls = calls s @ [log_Info ''[i] Packaging app...'', call_prepareIcon img,
         if Release (defaultContext cmd) then call_fyneRelease img else call_fynePackage img]\<rparr>)"
  using assms by (simp add: Build_def invoke_def Let_def split: if_splits)

lemma Build_after_package_success:
  assumes "prepareIcon x (defaultContext cmd) img (world s) = (None, w1)"
    and "(if Release (defaultContext cmd) then fyneRelease x (defaultContext cmd) img w1
          else fynePackage x (defaultContext cmd) img w1) = (None, w2)"
    and "pkg = Context.Name (defaultContext cmd) @ ''.tar.xz''"
    and "mv = [''mv'', JoinPathContainer [WorkDirContainer (defaultContext cmd), pkg],
               JoinPathContainer [TmpDirContainer (defaultContext cmd), ID img, pkg]]"
    and "tar = [''tar'', ''-xf'', JoinPathContainer [TmpDirContainer (defaultContext cmd), ID img, pkg],
                ''--strip-components=3'', ''usr/local/bin'']"
    and "dir = JoinPathContainer [BinDirContainer (defaultContext cmd), ID img]"
    and "image_Run x img (Volume (defaultContext cmd)) \<lparr>WorkDir = ''''\<rparr> mv w2 = (e3, w3)"
    and "image_Run x img (Volume (defaultContext cmd)) \<lparr>WorkDir = dir\<rparr> tar w3 = (e4, w4)"
  shows "Build x cmd img s =
     ((pkg, None),
      \<lparr>world = w4,
       calls = calls s @ [log_Info ''[i] Packaging app...'', call_prepareIcon img,
         if Release (defaultContext cmd) then call_fyneRelease img else call_fynePackage img,
         call_Run img \<lparr>WorkDir = ''''\<rparr> mv, call_Run img \<lparr>WorkDir = dir\<rparr> tar]\<rparr>)"
  using assms by (simp add: Build_def invoke_def Let_def split: if_splits)


lemma Build_success_calls:
  assumes ok: "Build x cmd img s = ((n, None), t)"
  shows "n = Context.Name (defaultContext cmd) @ ''.tar.xz'' \<and>
     calls t = calls s @ [log_Info ''[i] Packaging app...'', call_prepareIcon img,
       if Release (defaultContext cmd) then call_fyneRelease img else call_fynePackage img,
       call_Run img \<lparr>WorkDir = ''''\<rparr>
         [''mv'',
          JoinPathContainer [WorkDirContainer (defaultContext cmd),
            Context.Name (defaultContext cmd) @ ''.tar.xz''],
          JoinPathContainer [TmpDirContainer (defaultContext cmd), ID img,
            Context.Name (defaultContext cmd) @ ''.tar.xz'']],
       call_Run img \<lparr>WorkDir = JoinPathContainer [BinDirContainer (defaultContext cmd), ID img]\<rparr>
         [''tar'', ''-xf'',
          JoinPathContainer [TmpDirContainer (defaultContext cmd), ID img,
            Context.Name (defaultContext cmd) @ ''.tar.xz''],
          ''--strip-components=3'', ''usr/local/bin'']]"
proof -
  let ?ctx = "defaultContext cmd"
  let ?pkg = "Context.Name ?ctx @ ''.tar.xz''"
  let ?mv = "[''mv'', JoinPathContainer [WorkDirContainer ?ctx, ?pkg],
          JoinPathContainer [TmpDirContainer ?ctx, ID img, ?pkg]]"
  let ?tar = "[''tar'', ''-xf'', JoinPathContainer [TmpDirContainer ?ctx, ID img, ?pkg],
          ''--strip-components=3'', ''usr/local/bin'']"
  let ?dir = "JoinPathContainer [BinDirContainer ?ctx, ID img]"
  obtain e1 w1 where p1: "prepareIcon x ?ctx img (world s) = (e1, w1)"
    by (cases "prepareIcon x ?ctx img (world s)")
  obtain e2 w2 where p2: "(if Release ?ctx then fyneRelease x ?ctx img w1
          else fynePackage x ?ctx img w1) = (e2, w2)"
    by (cases "if Release ?ctx then fyneRelease x ?ctx img w1 else fynePackage x ?ctx img w1")
  have e1: "e1 = None"
  proof (cases e1)
    case (Some e)
    with p1 have "prepareIcon x ?ctx img (world s) = (Some e, w1)" by simp
    from Build_after_prepare_failure [OF this] ok show ?thesis by simp
  qed simp
  have e2: "e2 = None"
  proof (cases e2)
    case (Some e)
    from p1 e1 have a: "prepareIcon x ?ctx img (world s) = (None, w1)" by simp
    from p2 Some have b: "(if Release ?ctx then fyneRelease x ?ctx img w1
          else fynePackage x ?ctx img w1) = (Some e, w2)" by simp
    from Build_after_package_failure [OF a b] ok show ?thesis by simp
  qed simp
  obtain e3 w3 where p3: "image_Run x img (Volume ?ctx) \<lparr>WorkDir = ''''\<rparr> ?mv w2 = (e3, w3)"
    by (cases "image_Run x img (Volume ?ctx) \<lparr>WorkDir = ''''\<rparr> ?mv w2")
  obtain e4 w4 where p4: "image_Run x img (Volume ?ctx) \<lparr>WorkDir = ?dir\<rparr> ?tar w3 = (e4, w4)"
    by (cases "image_Run x img (Volume ?ctx) \<lparr>WorkDir = ?dir\<rparr> ?tar w3")
  from p1 e1 have a: "prepareIcon x ?ctx img (world s) = (None, w1)" by simp
  from p2 e2 have b: "(if Release ?ctx then fyneRelease x ?ctx img w1
          else fynePackage x ?ctx img w1) = (None, w2)" by simp
  from Build_after_package_success [OF a b refl refl refl refl p3 p4] ok
  show ?thesis by simp
qed

subsection \<open>Path elements and overlap\<close>









subsection \<open>Build on the concrete inputs\<close>

lemmas app_defs = fixed_steps_def start_def app_cmd_def app_ctx_def image_amd64_def image_arm64_def
  new_image_def ArchAmd64_def ArchArm64_def freebsdOS_def freebsdImageAmd64_def freebsdImageArm64_def

lemma Build_app_amd64:
  "Build (fixed_steps None None run) (app_cmd False) image_amd64 start =
     ((''app.tar.xz'', None),
      \<lparr>world = (),
       calls = [log_Info ''[i] Packaging app...'', call_prepareIcon image_amd64,
         call_fynePackage image_amd64,
         call_Run image_amd64 \<lparr>WorkDir = ''''\<rparr>
           [''mv'', ''/app/app.tar.xz'', ''/app/fyne-cross/tmp/freebsd-amd64/app.tar.xz''],
         call_Run image_amd64 \<lparr>WorkDir = ''/app/fyne-cross/bin/freebsd-amd64''\<rparr>
           [''tar'', ''-xf'', ''/app/fyne-cross/tmp/freebsd-amd64/app.tar.xz'',
            ''--strip-components=3'', ''usr/local/bin'']]\<rparr>)"
  by (simp add: Build_def invoke_def Let_def app_defs)

lemma Build_app_arm64:
  "Build (fixed_steps None None run) (app_cmd False) image_arm64 start =
     ((''app.tar.xz'', None),
      \<lparr>world = (),
       calls = [log_Info ''[i] Packaging app...'', call_prepareIcon image_arm64,
         call_fynePackage image_arm64,
         call_Run image_arm64 \<lparr>WorkDir = ''''\<rparr>
           [''mv'', ''/app/app.tar.xz'', ''/app/fyne-cross/tmp/freebsd-arm64/app.tar.xz''],
         call_Run image_arm64 \<lparr>WorkDir = ''/app/fyne-cross/bin/freebsd-arm64''\<rparr>
           [''tar'', ''-xf'', ''/app/fyne-cross/tmp/freebsd-arm64/app.tar.xz'',
            ''--strip-components=3'', ''usr/local/bin'']]\<rparr>)"
  by (simp add: Build_def invoke_def Let_def app_defs)


subsection \<open>The claims about Build\<close>

text \<open>
  Claim C1 says that, when Prepare and Package succeed, a failure of the Relocate step
  (the in-container \<^verbatim>\<open>mv\<close>) or of the Extract step (the in-container \<^verbatim>\<open>tar -xf\<close>) makes
  Build return a non-nil error. Build calls \<^verbatim>\<open>image.Run\<close> for both steps as statements
  and drops what they return. Here every in-container command fails with "exit status
  1": Build still runs both commands and returns the artifact name with the nil error.
\<close>

theorem Build_Run_failure_not_returned:
  "image_Run (fixed_steps None None (Some (errorString ''exit status 1''))) image_amd64 ()
     \<lparr>WorkDir = ''''\<rparr>
     [''mv'', ''/app/app.tar.xz'', ''/app/fyne-cross/tmp/freebsd-amd64/app.tar.xz''] () =
     (Some (errorString ''exit status 1''), ()) \<and>
   image_Run (fixed_steps None None (Some (errorString ''exit status 1''))) image_amd64 ()
     \<lparr>WorkDir = ''/app/fyne-cross/bin/freebsd-amd64''\<rparr>
     [''tar'', ''-xf'', ''/app/fyne-cross/tmp/freebsd-amd64/app.tar.xz'',
      ''--strip-components=3'', ''usr/local/bin''] () =
     (Some (errorString ''exit status 1''), ()) \<and>
   Build (fixed_steps None None (Some (errorString ''exit status 1''))) (app_cmd False)
     image_amd64 start =
     ((''app.tar.xz'', None),
      \<lparr>world = (),
       calls = [log_Info ''[i] Packaging app...'', call_prepareIcon image_amd64,
         call_fynePackage image_amd64,
         call_Run image_amd64 \<lparr>WorkDir = ''''\<rparr>
           [''mv'', ''/app/app.tar.xz'', ''/app/fyne-cross/tmp/freebsd-amd64/app.tar.xz''],
         call_Run image_amd64 \<lparr>WorkDir = ''/app/fyne-cross/bin/freebsd-amd64''\<rparr>
           [''tar'', ''-xf'', ''/app/fyne-cross/tmp/freebsd-amd64/app.tar.xz'',
            ''--strip-components=3'', ''usr/local/bin'']]\<rparr>)"
  by (simp add: Build_def invoke_def Let_def app_defs)

text \<open>
  Claim C5. When the Prepare step (prepareIcon) fails with an error, Build returns the
  empty artifact name and that same error value, and the only calls it has made are the
  log line and prepareIcon: neither packaging procedure and no in-container command has
  run, and the world is as prepareIcon left it.
\<close>

theorem Build_prepare_failure:
  assumes "prepareIcon x (defaultContext cmd) img (world s) = (Some e, w)"
  shows "Build x cmd img s =
     (('''', Some e),
      \<lparr>world = w, calls = calls s @ [log_Info ''[i] Packaging app...'', call_prepareIcon img]\<rparr>)"
  using assms by (rule Build_after_prepare_failure)

theorem Build_prepare_failure_witness:
  "Build (fixed_steps (Some (errorString ''icon not found'')) None None) (app_cmd True)
     image_arm64 start =
     (('''', Some (errorString ''icon not found'')),
      \<lparr>world = (), calls = [log_Info ''[i] Packaging app...'', call_prepareIcon image_arm64]\<rparr>)"
  using Build_prepare_failure [of "fixed_steps (Some (errorString ''icon not found'')) None None"
      "app_cmd True" image_arm64 start "errorString ''icon not found''" "()"]
  by (simp add: fixed_steps_def start_def)

text \<open>
  Claim C6. When Prepare succeeds and the Package step fails (fyneRelease when the
  context's Release flag is set, fynePackage otherwise), Build returns the empty
  artifact name and the error "could not package the Fyne app: " followed by the
  message of the underlying error; the calls made are the log line, prepareIcon and
  the one packaging procedure, so Relocate and Extract have not run.
\<close>

theorem Build_package_failure:
  assumes "prepareIcon x (defaultContext cmd) img (world s) = (None, w1)"
    and "(if Release (defaultContext cmd) then fyneRelease x (defaultContext cmd) img w1
          else fynePackage x (defaultContext cmd) img w1) = (Some e, w2)"
  shows "Build x cmd img s =
     (('''', Some (errorString (''could not package the Fyne app: '' @ Error e))),
      \<lparr>world = w2,
       calls = calls s @ [log_Info ''[i] Packaging app...'', call_prepareIcon img,
         if Release (defaultContext cmd) then call_fyneRelease img else call_fynePackage img]\<rparr>)"
  using assms by (rule Build_after_package_failure)

theorem Build_package_failure_witness:
  "Build (fixed_steps None (Some (errorString ''exit status 2'')) None) (app_cmd True)
     image_amd64 start =
     (('''', Some (errorString ''could not package the Fyne app: exit status 2'')),
      \<lparr>world = (), calls = [log_Info ''[i] Packaging app...'', call_prepareIcon image_amd64,
         call_fyneRelease image_amd64]\<rparr>) \<and>
   Build (fixed_steps None (Some (errorString ''exit status 2'')) None) (app_cmd False)
     image_amd64 start =
     (('''', Some (errorString ''could not package the Fyne app: exit status 2'')),
      \<lparr>world = (), calls = [log_Info ''[i] Packaging app...'', call_prepareIcon image_amd64,
         call_fynePackage image_amd64]\<rparr>)"
  using Build_package_failure [of "fixed_steps None (Some (errorString ''exit status 2'')) None"
      "app_cmd True" image_amd64 start "()" "errorString ''exit status 2''" "()"]
    Build_package_failure [of "fixed_steps None (Some (errorString ''exit status 2'')) None"
      "app_cmd False" image_amd64 start "()" "errorString ''exit status 2''" "()"]
  by (simp add: fixed_steps_def start_def app_cmd_def app_ctx_def)

text \<open>
  Claim C7. Whenever Build returns without error, the artifact name it returns is the
  application name of the shared context followed by ".tar.xz", whatever the image
  (and so whatever its architecture).
\<close>

theorem Build_artifact_name:
  assumes "Build x cmd img s = ((name, None), t)"
  shows "name = Context.Name (defaultContext cmd) @ ''.tar.xz''"
  using Build_success_calls [OF assms] by simp

theorem Build_artifact_name_witness:
  "fst (Build (fixed_steps None None None) (app_cmd False) image_amd64 start) =
     (''app.tar.xz'', None) \<and>
   fst (Build (fixed_steps None None None) (app_cmd False) image_arm64 start) =
     (''app.tar.xz'', None) \<and>
   Context.Name (defaultContext (app_cmd False)) @ ''.tar.xz'' = ''app.tar.xz''"
  using Build_artifact_name [OF Build_app_amd64 [of None]]
    Build_artifact_name [OF Build_app_arm64 [of None]]
  by (simp add: Build_app_amd64 Build_app_arm64)




section \<open>Properties of \<^verbatim>\<open>setupContainerImages\<close>\<close>

subsection \<open>The switch and the loop\<close>

lemma switch_arch_amd64:
  "\<exists>img. switch_arch x GOARCH flags ctx runner ArchAmd64 = Some img \<and>
     env img ''CGO_LDFLAGS'' =
       (if GOARCH = ArchArm64
        then Some (case Env ctx ''CGO_LDFLAGS'' of Some v \<Rightarrow> v @ '' -fuse-ld=lld'' | None \<Rightarrow> ''-fuse-ld=lld'')
        else env (createContainerImage x runner ArchAmd64 freebsdOS
                   (overrideDockerImage x (CommonFlags flags) freebsdImageAmd64)) ''CGO_LDFLAGS'')"
  by (simp add: switch_arch_def SetEnv_def Let_def split: option.splits)

lemma switch_arch_arm64:
  "\<exists>img. switch_arch x GOARCH flags ctx runner ArchArm64 = Some img \<and>
     env img ''CGO_LDFLAGS'' =
       Some (case Env ctx ''CGO_LDFLAGS'' of Some v \<Rightarrow> v @ '' -fuse-ld=lld'' | None \<Rightarrow> ''-fuse-ld=lld'')"
  by (simp add: switch_arch_def SetEnv_def Let_def ArchAmd64_def ArchArm64_def split: option.splits)

lemma switch_arch_Some:
  assumes "arch = ArchAmd64 \<or> arch = ArchArm64"
  shows "\<exists>img. switch_arch x GOARCH flags ctx runner arch = Some img"
proof -
  from assms show ?thesis
  proof
    assume "arch = ArchAmd64"
    with switch_arch_amd64 [of x GOARCH flags ctx runner] show ?thesis by blast
  next
    assume "arch = ArchArm64"
    with switch_arch_arm64 [of x GOARCH flags ctx runner] show ?thesis by blast
  qed
qed


lemma switch_arch_other:
  "arch \<noteq> ArchAmd64 \<Longrightarrow> arch \<noteq> ArchArm64 \<Longrightarrow> switch_arch x GOARCH flags ctx runner arch = None"
  by (simp add: switch_arch_def)


lemma setup_loop_supported:
  assumes "set archs \<subseteq> {ArchAmd64, ArchArm64}"
  shows "setup_loop x GOARCH flags ctx runner archs images =
     Return (images @ map (\<lambda>arch. SetEnv (the (switch_arch x GOARCH flags ctx runner arch))
                                  ''GOOS'' ''freebsd'') archs)"
  using assms
proof (induction archs arbitrary: images)
  case Nil
  show ?case by simp
next
  case (Cons arch rest)
  from Cons.prems have a: "arch = ArchAmd64 \<or> arch = ArchArm64"
    and r: "set rest \<subseteq> {ArchAmd64, ArchArm64}" by simp_all
  from switch_arch_Some [OF a, of x GOARCH flags ctx runner]
  obtain img where i: "switch_arch x GOARCH flags ctx runner arch = Some img" ..
  show ?case using i Cons.IH [OF r] by simp
qed


lemma setup_loop_unsupported:
  assumes "\<not> set archs \<subseteq> {ArchAmd64, ArchArm64}"
  shows "setup_loop x GOARCH flags ctx runner archs images =
     Panic ''invalid memory address or nil pointer dereference''"
  using assms
proof (induction archs arbitrary: images)
  case Nil
  then show ?case by simp
next
  case (Cons arch rest)
  show ?case
  proof (cases "arch = ArchAmd64 \<or> arch = ArchArm64")
    case True
    from switch_arch_Some [OF True, of x GOARCH flags ctx runner]
    obtain img where i: "switch_arch x GOARCH flags ctx runner arch = Some img" ..
    from True Cons.prems have r: "\<not> set rest \<subseteq> {ArchAmd64, ArchArm64}" by auto
    show ?thesis using i Cons.IH [OF r] by simp
  next
    case False
    then have "switch_arch x GOARCH flags ctx runner arch = None"
      by (simp add: switch_arch_other)
    then show ?thesis by simp
  qed
qed

lemma setupContainerImages_supported:
  assumes ta: "targetArchFromFlag x (TargetArch flags) freebsdArchSupported = (archs, None)"
    and dc: "makeDefaultContext x (CommonFlags flags) args = (ctx, None)"
    and ce: "newContainerEngine x ctx = (runner, None)"
    and sup: "set archs \<subseteq> set freebsdArchSupported"
  shows "setupContainerImages x GOARCH cmd flags args =
     Return (cmd\<lparr>defaultContext := ctx,
                 Images := Images cmd @
                   map (\<lambda>arch. SetEnv (the (switch_arch x GOARCH flags ctx runner arch))
                                  ''GOOS'' ''freebsd'') archs\<rparr>, None)"
proof -
  from sup have "set archs \<subseteq> {ArchAmd64, ArchArm64}" by (simp add: freebsdArchSupported_def)
  from setup_loop_supported [OF this, of x GOARCH flags ctx runner "Images cmd"]
  have "setup_loop x GOARCH flags ctx runner archs (Images (cmd\<lparr>defaultContext := ctx\<rparr>)) =
     Return (Images cmd @ map (\<lambda>arch. SetEnv (the (switch_arch x GOARCH flags ctx runner arch))
                                  ''GOOS'' ''freebsd'') archs)" by simp
  with ta dc ce show ?thesis
    by (simp add: setupContainerImages_def)
qed

lemma GOOS_keeps_CGO_LDFLAGS:
  "env (SetEnv img ''GOOS'' v) ''CGO_LDFLAGS'' = env img ''CGO_LDFLAGS''"
  by (simp add: SetEnv_def)


lemma loop_image_CGO_LDFLAGS:
  assumes "arch = ArchAmd64 \<or> arch = ArchArm64"
  shows "env (SetEnv (the (switch_arch x GOARCH flags ctx runner arch)) ''GOOS'' ''freebsd'')
           ''CGO_LDFLAGS'' =
     (if arch = ArchArm64 \<or> (GOARCH = ArchArm64 \<and> arch = ArchAmd64)
      then Some (case Env ctx ''CGO_LDFLAGS'' of
                   Some v \<Rightarrow> v @ '' -fuse-ld=lld'' | None \<Rightarrow> ''-fuse-ld=lld'')
      else env (createContainerImage x runner arch freebsdOS
                 (overrideDockerImage x (CommonFlags flags) freebsdImageAmd64)) ''CGO_LDFLAGS'')"
proof -
  have ne: "ArchAmd64 \<noteq> ArchArm64" by (simp add: ArchAmd64_def ArchArm64_def)
  from assms show ?thesis
  proof
    assume a: "arch = ArchAmd64"
    from switch_arch_amd64 [of x GOARCH flags ctx runner] ne show ?thesis
      unfolding a by (auto simp add: GOOS_keeps_CGO_LDFLAGS)
  next
    assume a: "arch = ArchArm64"
    from switch_arch_arm64 [of x GOARCH flags ctx runner] show ?thesis
      unfolding a by (auto simp add: GOOS_keeps_CGO_LDFLAGS)
  qed
qed

lemma occurs_in_lld:
  "occurs_in ''-fuse-ld=lld''
     (case prior of Some v \<Rightarrow> v @ '' -fuse-ld=lld'' | None \<Rightarrow> ''-fuse-ld=lld'')"
proof (cases prior)
  case None
  have "''-fuse-ld=lld'' = [] @ ''-fuse-ld=lld'' @ []" by simp
  then have "occurs_in ''-fuse-ld=lld'' ''-fuse-ld=lld''" unfolding occurs_in_def by blast
  with None show ?thesis by simp
next
  case (Some v)
  have "v @ '' -fuse-ld=lld'' = (v @ '' '') @ ''-fuse-ld=lld'' @ []" by simp
  then have "occurs_in ''-fuse-ld=lld'' (v @ '' -fuse-ld=lld'')" unfolding occurs_in_def by blast
  with Some show ?thesis by simp
qed

lemmas setup_defs = plain_helpers_def arch_flags_def app_cmd_def app_ctx_def new_image_def
  ArchAmd64_def ArchArm64_def freebsdOS_def freebsdImageAmd64_def freebsdImageArm64_def
  freebsdArchSupported_def

lemma plain_run_both:
  "CGO_LDFLAGS_after (setupContainerImages (plain_helpers vars) GOARCH (app_cmd False)
      (arch_flags [''amd64'', ''arm64'']) []) =
   Some [if GOARCH = ''arm64''
         then Some (case vars ''CGO_LDFLAGS'' of
                      Some p \<Rightarrow> p @ '' -fuse-ld=lld'' | None \<Rightarrow> ''-fuse-ld=lld'')
         else None,
         Some (case vars ''CGO_LDFLAGS'' of
                 Some p \<Rightarrow> p @ '' -fuse-ld=lld'' | None \<Rightarrow> ''-fuse-ld=lld'')]"
  by (simp add: CGO_LDFLAGS_after_def setupContainerImages_def switch_arch_def SetEnv_def
      Let_def setup_defs split: option.splits)

subsection \<open>The claims about the linker flag\<close>

text \<open>
  Claim C10. Let the helpers succeed and return target architectures that are all
  supported. Then setupContainerImages returns without error, with one image appended
  per target architecture, and for every position of arm64 in the list the image at that
  position has \<^verbatim>\<open>CGO_LDFLAGS\<close> set: to the shared context's value followed by
  " -fuse-ld=lld" when the context has one, to "-fuse-ld=lld" otherwise. The value
  contains "-fuse-ld=lld", and the host architecture \<open>GOARCH\<close> is arbitrary (arm64
  included).
\<close>

theorem setupContainerImages_arm64_lld:
  assumes ta: "targetArchFromFlag x (TargetArch flags) freebsdArchSupported = (archs, None)"
    and dc: "makeDefaultContext x (CommonFlags flags) args = (ctx, None)"
    and ce: "newContainerEngine x ctx = (runner, None)"
    and sup: "set archs \<subseteq> set freebsdArchSupported"
    and i: "i < length archs" and arm: "archs ! i = ArchArm64"
  shows "\<exists>cmd' v. setupContainerImages x GOARCH cmd flags args = Return (cmd', None) \<and>
     length (Images cmd') = length (Images cmd) + length archs \<and>
     env (Images cmd' ! (length (Images cmd) + i)) ''CGO_LDFLAGS'' = Some v \<and>
     v = (case Env ctx ''CGO_LDFLAGS'' of
            Some p \<Rightarrow> p @ '' -fuse-ld=lld'' | None \<Rightarrow> ''-fuse-ld=lld'') \<and>
     occurs_in ''-fuse-ld=lld'' v"
proof -
  note run = setupContainerImages_supported [OF ta dc ce sup, of GOARCH cmd]
  have "env (SetEnv (the (switch_arch x GOARCH flags ctx runner (archs ! i))) ''GOOS'' ''freebsd'')
          ''CGO_LDFLAGS'' =
        Some (case Env ctx ''CGO_LDFLAGS'' of
                Some p \<Rightarrow> p @ '' -fuse-ld=lld'' | None \<Rightarrow> ''-fuse-ld=lld'')"
    using loop_image_CGO_LDFLAGS [of "archs ! i" x GOARCH flags ctx runner] arm by simp
  with run i occurs_in_lld [of "Env ctx ''CGO_LDFLAGS''"] show ?thesis
    by (simp add: nth_append)
qed

theorem setupContainerImages_arm64_lld_witness:
  "CGO_LDFLAGS_after (setupContainerImages (plain_helpers Map.empty) ''arm64'' (app_cmd False)
      (arch_flags [''amd64'', ''arm64'']) []) =
     Some [Some ''-fuse-ld=lld'', Some ''-fuse-ld=lld''] \<and>
   [''amd64'', ''arm64''] ! 1 = ArchArm64 \<and>
   occurs_in ''-fuse-ld=lld'' ''-fuse-ld=lld''"
proof -
  let ?x = "plain_helpers Map.empty :: (unit, unit, unit) helpers"
  let ?flags = "arch_flags [''amd64'', ''arm64'']"
  have ta: "targetArchFromFlag ?x (TargetArch ?flags) freebsdArchSupported =
      ([''amd64'', ''arm64''], None)" by (simp add: setup_defs)
  have dc: "makeDefaultContext ?x (CommonFlags ?flags) [] = (app_ctx False Map.empty, None)"
    by (simp add: setup_defs)
  have ce: "newContainerEngine ?x (app_ctx False Map.empty) = ((), None)"
    by (simp add: setup_defs)
  have sup: "set [''amd64'', ''arm64''] \<subseteq> set freebsdArchSupported"
    by (simp add: setup_defs)
  have i: "(1::nat) < length [''amd64'', ''arm64'']" by simp
  have arm: "[''amd64'', ''arm64''] ! 1 = ArchArm64" by (simp add: setup_defs)
  from setupContainerImages_arm64_lld [OF ta dc ce sup i arm, of "''arm64''" "app_cmd False"]
  have "occurs_in ''-fuse-ld=lld'' ''-fuse-ld=lld''"
    by (auto simp add: app_ctx_def)
  with arm plain_run_both [of Map.empty "''arm64''"] show ?thesis by simp
qed

text \<open>
  Claim C3 says that "-fuse-ld=lld" is added exactly when the host is not arm64 and the
  target is arm64, or the host is arm64 and the target is amd64. On an arm64 host with
  the single target arm64, where that rule does not apply and the image is created
  without the variable, the run sets \<^verbatim>\<open>CGO_LDFLAGS\<close> to "-fuse-ld=lld".
\<close>

theorem setupContainerImages_lld_rule_counterexample:
  "CGO_LDFLAGS_after (setupContainerImages (plain_helpers Map.empty) ''arm64'' (app_cmd False)
      (arch_flags [''arm64'']) []) = Some [Some ''-fuse-ld=lld''] \<and>
   env (new_image () ''arm64'' ''freebsd'' ''fyneio/fyne-cross-images:freebsd-arm64'')
     ''CGO_LDFLAGS'' = None \<and>
   \<not> lld_rule_spec ''arm64'' ''arm64''"
  by (simp add: CGO_LDFLAGS_after_def setupContainerImages_def switch_arch_def SetEnv_def
      Let_def lld_rule_spec_def setup_defs)

text \<open>
  Claim C3, as amended. Let the helpers succeed and return target architectures that are
  all supported. For each target, "-fuse-ld=lld" is added to the image's \<^verbatim>\<open>CGO_LDFLAGS\<close>
  exactly when the target is arm64 (whatever the host), or the host is arm64 and the
  target is amd64: in these cases the variable is the shared context's value followed
  by " -fuse-ld=lld" (or "-fuse-ld=lld" when the context has none), and in the
  remaining case it is what createContainerImage left. When the context's value is
  "-existing" the result is "-existing -fuse-ld=lld".
\<close>

theorem setupContainerImages_lld_rule:
  assumes ta: "targetArchFromFlag x (TargetArch flags) freebsdArchSupported = (archs, None)"
    and dc: "makeDefaultContext x (CommonFlags flags) args = (ctx, None)"
    and ce: "newContainerEngine x ctx = (runner, None)"
    and sup: "set archs \<subseteq> set freebsdArchSupported"
    and i: "i < length archs"
  shows "\<exists>cmd'. setupContainerImages x GOARCH cmd flags args = Return (cmd', None) \<and>
     env (Images cmd' ! (length (Images cmd) + i)) ''CGO_LDFLAGS'' =
       (if archs ! i = ArchArm64 \<or> (GOARCH = ArchArm64 \<and> archs ! i = ArchAmd64)
        then Some (case Env ctx ''CGO_LDFLAGS'' of
                     Some p \<Rightarrow> p @ '' -fuse-ld=lld'' | None \<Rightarrow> ''-fuse-ld=lld'')
        else env (createContainerImage x runner (archs ! i) freebsdOS
                   (overrideDockerImage x (CommonFlags flags) freebsdImageAmd64)) ''CGO_LDFLAGS'') \<and>
     ((archs ! i = ArchArm64 \<or> (GOARCH = ArchArm64 \<and> archs ! i = ArchAmd64)) \<and>
      Env ctx ''CGO_LDFLAGS'' = Some ''-existing'' \<longrightarrow>
        env (Images cmd' ! (length (Images cmd) + i)) ''CGO_LDFLAGS'' =
          Some ''-existing -fuse-ld=lld'')"
proof -
  note run = setupContainerImages_supported [OF ta dc ce sup, of GOARCH cmd]
  from sup i have "archs ! i = ArchAmd64 \<or> archs ! i = ArchArm64"
    by (auto simp add: freebsdArchSupported_def dest: nth_mem)
  from loop_image_CGO_LDFLAGS [OF this, of x GOARCH flags ctx runner] run i show ?thesis
    by (simp add: nth_append)
qed

theorem setupContainerImages_lld_rule_witness:
  "CGO_LDFLAGS_after (setupContainerImages (plain_helpers [''CGO_LDFLAGS'' \<mapsto> ''-existing''])
      ''amd64'' (app_cmd False) (arch_flags [''amd64'', ''arm64'']) []) =
     Some [None, Some ''-existing -fuse-ld=lld''] \<and>
   CGO_LDFLAGS_after (setupContainerImages (plain_helpers [''CGO_LDFLAGS'' \<mapsto> ''-existing''])
      ''arm64'' (app_cmd False) (arch_flags [''amd64'', ''arm64'']) []) =
     Some [Some ''-existing -fuse-ld=lld'', Some ''-existing -fuse-ld=lld'']"
proof -
  let ?vars = "[''CGO_LDFLAGS'' \<mapsto> ''-existing'']"
  let ?x = "plain_helpers ?vars :: (unit, unit, unit) helpers"
  let ?flags = "arch_flags [''amd64'', ''arm64'']"
  have ta: "targetArchFromFlag ?x (TargetArch ?flags) freebsdArchSupported =
      ([''amd64'', ''arm64''], None)" by (simp add: setup_defs)
  have dc: "makeDefaultContext ?x (CommonFlags ?flags) [] = (app_ctx False ?vars, None)"
    by (simp add: setup_defs)
  have ce: "newContainerEngine ?x (app_ctx False ?vars) = ((), None)"
    by (simp add: setup_defs)
  have sup: "set [''amd64'', ''arm64''] \<subseteq> set freebsdArchSupported"
    by (simp add: setup_defs)
  have i: "(1::nat) < length [''amd64'', ''arm64'']" by simp
  from setupContainerImages_lld_rule [OF ta dc ce sup i, of "''amd64''" "app_cmd False"]
  obtain cmd' where
    "setupContainerImages ?x ''amd64'' (app_cmd False) ?flags [] = Return (cmd', None)"
    "env (Images cmd' ! (length (Images (app_cmd False)) + 1)) ''CGO_LDFLAGS'' =
       Some ''-existing -fuse-ld=lld''"
    by (auto simp add: setup_defs)
  with plain_run_both [of ?vars "''amd64''"] plain_run_both [of ?vars "''arm64''"]
  show ?thesis by simp
qed

end
